theory Spec2Isabelle
  imports Complex_Main "HOL-Library.AList"
begin

section \<open>Data model\<close>

text \<open>
  The orchestration code of \<^verbatim>\<open>music_game/game\<close> (engine.py, common.py,
  unreal_client.py) is embedded as state-passing functions. Python floats are modelled as
  reals (the code only compares and forwards them; NaN and rounding are not represented),
  dictionaries as association lists in insertion order (\<open>AList.update\<close> inserts as a Python
  dict does: an existing key keeps its position, a new key goes last; \<open>map_of\<close> looks up),
  and \<open>Optional\<close> values as \<open>option\<close>. Instances of the classes involved define neither
  \<^verbatim>\<open>__bool__\<close> nor \<^verbatim>\<open>__len__\<close>, so the truth test \<^verbatim>\<open>if x\<close> on an
  optional object is the test \<open>x \<noteq> None\<close>.
\<close>

type_synonym path = string
type_synonym samples = "real list"
type_synonym chroma = "real list list"

text \<open>A descriptor value, \<^verbatim>\<open>float | str\<close> in the source's annotations.\<close>

datatype descriptor_value = FloatV real | StrV string

type_synonym descriptors = "(string \<times> descriptor_value) list"

text \<open>\<^verbatim>\<open>ChordPrediction\<close>, \<^verbatim>\<open>EmotionPrediction\<close> and \<^verbatim>\<open>DialogueTurn\<close>:
  the fields the orchestration code reads. Both predictions call their field \<^verbatim>\<open>label\<close>;
  the records prefix it to keep the two apart.\<close>

record chord_prediction =
  chord_label :: string

record emotion_prediction =
  emotion_label :: string
  confidence :: real
  probabilities :: "(string \<times> real) list"

record dialogue_turn =
  role :: string
  content :: string

text \<open>common.py, \<^verbatim>\<open>GameResult\<close> and \<^verbatim>\<open>GameConfig\<close>.\<close>

record game_result =
  chord :: "chord_prediction option"
  emotion :: "emotion_prediction option"
  descriptors :: descriptors
  dialogue :: "dialogue_turn option"

record game_config =
  sample_rate :: int
  hop_length :: int
  confidence_threshold :: real
  emotion_labels :: "string list"
  ollama_model :: string
  history_limit :: int
  unreal_enabled :: bool
  unreal_ip :: string
  unreal_port :: int

definition default_config :: game_config where
  "default_config =
     \<lparr> sample_rate = 22050, hop_length = 512, confidence_threshold = 0.5,
       emotion_labels = [''joyful'', ''melancholic'', ''tense'', ''calm''],
       ollama_model = ''llama3'', history_limit = 6,
       unreal_enabled = False, unreal_ip = ''127.0.0.1'', unreal_port = 7000 \<rparr>"

text \<open>Exceptions. \<open>ValueError\<close> and \<open>KeyError\<close> are raised by the orchestration code's own
  conversions and lookups; \<open>Raised name\<close> is an exception coming out of a collaborator.\<close>

datatype error = ValueError | KeyError | Raised string

text \<open>The value of an OSC message: the code sends strings and floats.\<close>

datatype osc_value = OscStr string | OscFloat real

text \<open>The effects a request performs, in the order it performs them: one event per call
  to a collaborator, per mutation of the history, for the construction of the result and
  per message handed to the UDP client.\<close>

datatype event =
    LoadAudioSamples path int
  | ComputeChroma samples int int
  | DeriveChromaFromMidi path
  | EstimateChord chroma
  | ExtractDescriptors samples int
  | Predict "(string \<times> real) list"
  | Generate string string descriptors "dialogue_turn list"
  | HistoryAppend dialogue_turn
  | HistoryTrim int
  | Assemble game_result
  | SendMessage string osc_value
  | Print

text \<open>The collaborators whose code lies outside the orchestration modules, taken as
  parameters: decoding, chroma and descriptor extraction, chord estimation, the classifier
  with its declared key list \<^verbatim>\<open>FEATURE_KEYS\<close>, the text backend, the UDP client's
  \<^verbatim>\<open>send_message\<close> (\<open>None\<close>: sent, \<open>Some e\<close>: raises \<open>e\<close>) and Python's
  \<^verbatim>\<open>float\<close> on a string (\<open>None\<close>: the string is not numeric, \<^verbatim>\<open>ValueError\<close>).
  Each call either returns (\<open>Inr\<close>) or raises (\<open>Inl\<close>).\<close>

record world =
  load_audio_samples :: "path \<Rightarrow> int \<Rightarrow> error + (samples \<times> int)"
  compute_chroma :: "samples \<Rightarrow> int \<Rightarrow> int \<Rightarrow> error + chroma"
  estimate_chord :: "chroma \<Rightarrow> error + chord_prediction option"
  extract_essentia_descriptors :: "samples \<Rightarrow> int \<Rightarrow> error + descriptors"
  derive_chroma_from_midi :: "path \<Rightarrow> error + chroma option"
  FEATURE_KEYS :: "string list"
  predict :: "(string \<times> real) list \<Rightarrow> error + emotion_prediction"
  generate :: "string \<Rightarrow> string \<Rightarrow> descriptors \<Rightarrow> dialogue_turn list \<Rightarrow> error + dialogue_turn"
  send_message :: "string \<Rightarrow> osc_value \<Rightarrow> error option"
  float_str :: "string \<Rightarrow> real option"

text \<open>engine.py, the fields of a \<^verbatim>\<open>MusicEmotionGame\<close> instance. \<open>unreal_client\<close> holds
  the address the client was built with. \<open>trace\<close> is not a field of the source: it records
  the effects performed so far.\<close>

record music_emotion_game =
  config :: game_config
  history :: "dialogue_turn list"
  unreal_client :: "(string \<times> int) option"
  trace :: "event list"

type_synonym 'a action = "music_emotion_game \<Rightarrow> (error + 'a) \<times> music_emotion_game"

section \<open>Sequencing\<close>

text \<open>A raised exception ends the rest of the function; the state reached so far stays.\<close>

definition ret :: "'a \<Rightarrow> 'a action" where
  "ret x s = (Inr x, s)"

definition then_do :: "'a action \<Rightarrow> ('a \<Rightarrow> 'b action) \<Rightarrow> 'b action" where
  "then_do m f s = (case m s of (Inl e, s') \<Rightarrow> (Inl e, s') | (Inr x, s') \<Rightarrow> f x s')"

definition log_event :: "event \<Rightarrow> unit action" where
  "log_event ev s = (Inr (), s\<lparr>trace := trace s @ [ev]\<rparr>)"

definition call :: "event \<Rightarrow> error + 'a \<Rightarrow> 'a action" where
  "call ev outcome s = (outcome, s\<lparr>trace := trace s @ [ev]\<rparr>)"

fun for_each :: "'a list \<Rightarrow> ('a \<Rightarrow> unit action) \<Rightarrow> unit action" where
  "for_each [] body s = (Inr (), s)"
| "for_each (x # xs) body s =
     (case body x s of (Inl e, s') \<Rightarrow> (Inl e, s') | (Inr _, s') \<Rightarrow> for_each xs body s')"

section \<open>Python primitives\<close>

text \<open>\<^verbatim>\<open>xs[i:]\<close>: a negative start counts from the end and is clipped at 0, a
  non-negative one is clipped at the length.\<close>

definition py_slice_from :: "int \<Rightarrow> 'a list \<Rightarrow> 'a list" where
  "py_slice_from i xs =
     (let n = int (length xs);
          start = (if i < 0 then max (n + i) 0 else min i n)
      in drop (nat start) xs)"

text \<open>\<^verbatim>\<open>d.get(key, default)\<close> and \<^verbatim>\<open>d[key]\<close>.\<close>

definition dict_get :: "('k \<times> 'v) list \<Rightarrow> 'k \<Rightarrow> 'v \<Rightarrow> 'v" where
  "dict_get d k dflt = (case map_of d k of None \<Rightarrow> dflt | Some v \<Rightarrow> v)"

definition dict_index :: "('k \<times> 'v) list \<Rightarrow> 'k \<Rightarrow> error + 'v" where
  "dict_index d k = (case map_of d k of None \<Rightarrow> Inl KeyError | Some v \<Rightarrow> Inr v)"

text \<open>\<^verbatim>\<open>float(v)\<close> for a descriptor value.\<close>

fun to_float :: "world \<Rightarrow> descriptor_value \<Rightarrow> error + real" where
  "to_float w (FloatV x) = Inr x"
| "to_float w (StrV str) = (case float_str w str of None \<Rightarrow> Inl ValueError | Some x \<Rightarrow> Inr x)"

section \<open>unreal\_client.py\<close>

definition client_send :: "world \<Rightarrow> string \<Rightarrow> osc_value \<Rightarrow> unit action" where
  "client_send w address v =
     call (SendMessage address v)
       (case send_message w address v of None \<Rightarrow> Inr () | Some e \<Rightarrow> Inl e)"

text \<open>The \<^verbatim>\<open>isinstance(value, (float, int, str))\<close> test of the descriptor loop.\<close>

fun osc_compatible :: "descriptor_value \<Rightarrow> bool" where
  "osc_compatible (FloatV x) = True"
| "osc_compatible (StrV str) = True"

fun osc_of :: "descriptor_value \<Rightarrow> osc_value" where
  "osc_of (FloatV x) = OscFloat x"
| "osc_of (StrV str) = OscStr str"

definition send_game_result :: "world \<Rightarrow> game_result \<Rightarrow> unit action" where
  "send_game_result w result =
     then_do (case chord result of
                None \<Rightarrow> ret ()
              | Some c \<Rightarrow> client_send w ''/music/chord/label'' (OscStr (chord_label c))) (\<lambda>_.
     then_do (case emotion result of
                None \<Rightarrow> ret ()
              | Some e \<Rightarrow>
                  then_do (client_send w ''/music/emotion/label'' (OscStr (emotion_label e))) (\<lambda>_.
                  then_do (client_send w ''/music/emotion/confidence'' (OscFloat (confidence e))) (\<lambda>_.
                  for_each (probabilities e) (\<lambda>(emo, prob).
                    client_send w (''/music/emotion/probability/'' @ emo) (OscFloat prob))))) (\<lambda>_.
     then_do (case dialogue result of
                None \<Rightarrow> ret ()
              | Some d \<Rightarrow>
                  then_do (client_send w ''/music/llm/content'' (OscStr (content d))) (\<lambda>_.
                  client_send w ''/music/llm/role'' (OscStr (role d)))) (\<lambda>_.
     then_do (for_each (descriptors result) (\<lambda>(key, v).
                if osc_compatible v then client_send w (''/music/descriptor/'' @ key) (osc_of v)
                else ret ())) (\<lambda>_.
     log_event Print))))"

section \<open>engine.py\<close>

text \<open>\<^verbatim>\<open>__init__\<close>: an empty history, and a client only when the configuration enables it.\<close>

definition init_game :: "game_config \<Rightarrow> music_emotion_game" where
  "init_game cfg =
     \<lparr> config = cfg, history = [],
       unreal_client = (if unreal_enabled cfg then Some (unreal_ip cfg, unreal_port cfg) else None),
       trace = [] \<rparr>"

text \<open>The dict comprehension \<^verbatim>\<open>{key: float(descriptors.get(key, 0.0)) for key in FEATURE_KEYS}\<close>,
  one key at a time.\<close>

fun numeric_features ::
  "world \<Rightarrow> descriptors \<Rightarrow> string list \<Rightarrow> (string \<times> real) list \<Rightarrow> error + (string \<times> real) list" where
  "numeric_features w d [] acc = Inr acc"
| "numeric_features w d (key # keys) acc =
     (case to_float w (dict_get d key (FloatV 0)) of
        Inl e \<Rightarrow> Inl e
      | Inr x \<Rightarrow> numeric_features w d keys (AList.update key x acc))"

definition infer_emotion :: "world \<Rightarrow> descriptors \<Rightarrow> emotion_prediction option action" where
  "infer_emotion w d s =
     (case numeric_features w d (FEATURE_KEYS w) [] of
        Inl e \<Rightarrow> (Inl e, s)
      | Inr feats \<Rightarrow>
          then_do (call (Predict feats) (predict w feats)) (\<lambda>prediction.
            if confidence prediction < confidence_threshold (config s) then ret None
            else ret (Some prediction)) s)"

definition generate_dialogue ::
  "world \<Rightarrow> chord_prediction option \<Rightarrow> emotion_prediction option \<Rightarrow> descriptors \<Rightarrow>
   dialogue_turn option action" where
  "generate_dialogue w ch em d s =
     (case (ch, em) of
        (Some c, Some e) \<Rightarrow>
          then_do (call (Generate (emotion_label e) (chord_label c) d (history s))
                     (generate w (emotion_label e) (chord_label c) d (history s))) (\<lambda>turn.
          then_do (\<lambda>s1. log_event (HistoryAppend turn) (s1\<lparr>history := history s1 @ [turn]\<rparr>)) (\<lambda>_.
          then_do (\<lambda>s2. log_event (HistoryTrim (history_limit (config s2)))
                     (s2\<lparr>history := py_slice_from (- history_limit (config s2)) (history s2)\<rparr>)) (\<lambda>_.
          ret (Some turn)))) s
      | _ \<Rightarrow> (Inr None, s))"

text \<open>Lines 46 to 51 and 59 to 64, shared by both entry points: build the result, hand it
  to the client when there is one, return it.\<close>

definition assemble_and_send ::
  "world \<Rightarrow> chord_prediction option \<Rightarrow> emotion_prediction option \<Rightarrow> descriptors \<Rightarrow>
   dialogue_turn option \<Rightarrow> game_result action" where
  "assemble_and_send w ch em d dl =
     (let result = \<lparr> chord = ch, emotion = em, descriptors = d, dialogue = dl \<rparr> in
      then_do (log_event (Assemble result)) (\<lambda>_.
      then_do (\<lambda>s. case unreal_client s of None \<Rightarrow> ret () s | Some _ \<Rightarrow> send_game_result w result s) (\<lambda>_.
      ret result)))"

definition process_audio_file :: "world \<Rightarrow> path \<Rightarrow> game_result action" where
  "process_audio_file w file_path s =
     then_do (call (LoadAudioSamples file_path (sample_rate (config s)))
                (load_audio_samples w file_path (sample_rate (config s)))) (\<lambda>(smp, sr).
     then_do (call (ComputeChroma smp sr (hop_length (config s)))
                (compute_chroma w smp sr (hop_length (config s)))) (\<lambda>chr.
     then_do (call (EstimateChord chr) (estimate_chord w chr)) (\<lambda>ch.
     then_do (call (ExtractDescriptors smp sr) (extract_essentia_descriptors w smp sr)) (\<lambda>d.
     then_do (infer_emotion w d) (\<lambda>em.
     then_do (generate_dialogue w ch em d) (\<lambda>dl.
     assemble_and_send w ch em d dl)))))) s"

text \<open>\<^verbatim>\<open>{key: 0.0 for key in FEATURE_KEYS}\<close>.\<close>

definition zero_descriptors :: "string list \<Rightarrow> descriptors" where
  "zero_descriptors keys = foldl (\<lambda>acc key. AList.update key (FloatV 0) acc) [] keys"

text \<open>\<^verbatim>\<open>{key: float(descriptors[key]) for key in FEATURE_KEYS}\<close>.\<close>

fun float_descriptors ::
  "world \<Rightarrow> descriptors \<Rightarrow> string list \<Rightarrow> descriptors \<Rightarrow> error + descriptors" where
  "float_descriptors w d [] acc = Inr acc"
| "float_descriptors w d (key # keys) acc =
     (case dict_index d key of
        Inl e \<Rightarrow> Inl e
      | Inr v \<Rightarrow>
          (case to_float w v of
             Inl e \<Rightarrow> Inl e
           | Inr x \<Rightarrow> float_descriptors w d keys (AList.update key (FloatV x) acc)))"

definition process_midi_file :: "world \<Rightarrow> path \<Rightarrow> game_result action" where
  "process_midi_file w file_path =
     then_do (call (DeriveChromaFromMidi file_path) (derive_chroma_from_midi w file_path)) (\<lambda>chr.
     then_do (case chr of
                None \<Rightarrow> ret None
              | Some c \<Rightarrow> call (EstimateChord c) (estimate_chord w c)) (\<lambda>ch.
     let d = zero_descriptors (FEATURE_KEYS w) in
     then_do (case ch of
                None \<Rightarrow> ret None
              | Some _ \<Rightarrow>
                  (\<lambda>s. case float_descriptors w d (FEATURE_KEYS w) [] of
                         Inl e \<Rightarrow> (Inl e, s)
                       | Inr fd \<Rightarrow> infer_emotion w fd s)) (\<lambda>em.
     then_do (generate_dialogue w ch em d) (\<lambda>dl.
     assemble_and_send w ch em d dl))))"

section \<open>Observing a request\<close>

text \<open>The events a run of an action adds to the trace.\<close>

definition events_of :: "'a action \<Rightarrow> music_emotion_game \<Rightarrow> event list" where
  "events_of m s = drop (length (trace s)) (trace (snd (m s)))"

text \<open>The steps of the orchestrator's algorithm, numbered in the order the design gives
  them: chroma acquisition, chord estimation, descriptor acquisition, emotion inference,
  dialogue generation, history mutation, result assembly, broadcast dispatch.\<close>

fun stage :: "event \<Rightarrow> nat" where
  "stage (LoadAudioSamples p sr) = 1"
| "stage (ComputeChroma smp sr hop) = 1"
| "stage (DeriveChromaFromMidi p) = 1"
| "stage (EstimateChord chr) = 2"
| "stage (ExtractDescriptors smp sr) = 3"
| "stage (Predict feats) = 4"
| "stage (Generate el cl d h) = 5"
| "stage (HistoryAppend t) = 6"
| "stage (HistoryTrim n) = 6"
| "stage (Assemble r) = 7"
| "stage (SendMessage a v) = 8"
| "stage Print = 8"

fun is_send :: "event \<Rightarrow> bool" where
  "is_send (SendMessage a v) = True"
| "is_send Print = True"
| "is_send ev = False"

text \<open>An action that reads nothing of the state and only appends events satisfying \<open>P\<close>.\<close>

definition emits :: "(event \<Rightarrow> bool) \<Rightarrow> 'a action \<Rightarrow> bool" where
  "emits P m \<longleftrightarrow>
     (\<exists>out evs. list_all P evs \<and> (\<forall>s. m s = (out, s\<lparr>trace := trace s @ evs\<rparr>)))"

text \<open>What the client does with a result, read off a run from a fresh instance.\<close>

definition send_out :: "world \<Rightarrow> game_result \<Rightarrow> error + unit" where
  "send_out w r = fst (send_game_result w r (init_game default_config))"

definition send_evs :: "world \<Rightarrow> game_result \<Rightarrow> event list" where
  "send_evs w r = trace (snd (send_game_result w r (init_game default_config)))"

text \<open>Lines 89 and 90 of engine.py as one function of the history: append, then keep
  \<^verbatim>\<open>history[-history_limit:]\<close>.\<close>

definition append_and_trim :: "int \<Rightarrow> dialogue_turn list \<Rightarrow> dialogue_turn \<Rightarrow> dialogue_turn list" where
  "append_and_trim limit h turn = py_slice_from (- limit) (h @ [turn])"

text \<open>The message scheme of the client, as a list: chord, then emotion (label, confidence,
  one probability per label), then dialogue (content, role), then one message per
  descriptor; an unset field contributes nothing.\<close>

definition osc_messages :: "game_result \<Rightarrow> (string \<times> osc_value) list" where
  "osc_messages r =
     (case chord r of None \<Rightarrow> [] | Some c \<Rightarrow> [(''/music/chord/label'', OscStr (chord_label c))]) @
     (case emotion r of
        None \<Rightarrow> []
      | Some e \<Rightarrow>
          [(''/music/emotion/label'', OscStr (emotion_label e)),
           (''/music/emotion/confidence'', OscFloat (confidence e))] @
          map (\<lambda>(emo, prob). (''/music/emotion/probability/'' @ emo, OscFloat prob)) (probabilities e)) @
     (case dialogue r of
        None \<Rightarrow> []
      | Some d \<Rightarrow> [(''/music/llm/content'', OscStr (content d)), (''/music/llm/role'', OscStr (role d))]) @
     map (\<lambda>(key, v). (''/music/descriptor/'' @ key, osc_of v)) (descriptors r)"

text \<open>Handing a list of messages to the client, one after the other.\<close>

definition send_all :: "world \<Rightarrow> (string \<times> osc_value) list \<Rightarrow> unit action" where
  "send_all w msgs = for_each msgs (\<lambda>(a, v). client_send w a v)"

section \<open>A concrete setting\<close>

text \<open>Collaborators that always answer: a recording in D minor classified as tense with
  confidence 0.8, a backend that replies, a client whose sends succeed.\<close>

definition demo_emotion :: emotion_prediction where
  "demo_emotion =
     \<lparr> emotion_label = ''tense'', confidence = 0.8,
       probabilities = [(''joyful'', 0.05), (''melancholic'', 0.05), (''tense'', 0.8), (''calm'', 0.1)] \<rparr>"

definition demo_chord :: chord_prediction where
  "demo_chord = \<lparr> chord_label = ''Dm'' \<rparr>"

definition demo_turn :: dialogue_turn where
  "demo_turn = \<lparr> role = ''assistant'', content = ''A storm is coming.'' \<rparr>"

definition demo_descriptors :: descriptors where
  "demo_descriptors = [(''tempo'', FloatV 180), (''energy'', FloatV 0.9), (''scale'', StrV ''minor'')]"

definition demo_world :: world where
  "demo_world =
     \<lparr> load_audio_samples = (\<lambda>p sr. Inr ([0.1, 0.2], sr)),
       compute_chroma = (\<lambda>smp sr hop. Inr [[1, 0, 0]]),
       estimate_chord = (\<lambda>chr. Inr (Some demo_chord)),
       extract_essentia_descriptors = (\<lambda>smp sr. Inr demo_descriptors),
       derive_chroma_from_midi = (\<lambda>p. Inr (if p = ''silent.mid'' then None else Some [[1, 0, 0]])),
       FEATURE_KEYS = [''tempo'', ''energy''],
       predict = (\<lambda>feats. Inr demo_emotion),
       generate = (\<lambda>el cl d h. Inr demo_turn),
       send_message = (\<lambda>a v. None),
       float_str = (\<lambda>str. None) \<rparr>"

text \<open>The same with a client whose every send raises, with a backend that raises, and with
  a classifier that is unsure.\<close>

definition sink_down_world :: world where
  "sink_down_world = demo_world\<lparr> send_message := (\<lambda>a v. Some (Raised ''OSError'')) \<rparr>"

definition backend_down_world :: world where
  "backend_down_world = demo_world\<lparr> generate := (\<lambda>el cl d h. Inl (Raised ''ConnectionError'')) \<rparr>"

definition unsure_world :: world where
  "unsure_world = demo_world\<lparr> predict := (\<lambda>feats. Inr (demo_emotion\<lparr> confidence := 0.3 \<rparr>)) \<rparr>"

definition scale_world :: world where
  "scale_world = demo_world\<lparr> FEATURE_KEYS := [''tempo'', ''scale''] \<rparr>"

definition unreal_config :: game_config where
  "unreal_config = default_config\<lparr> unreal_enabled := True \<rparr>"

section \<open>Sequencing lemmas\<close>

lemma then_do_cases [consumes 1, case_names raise continue]:
  assumes "then_do m f s = (out, s')"
  obtains e where "m s = (Inl e, s')" "out = Inl e"
  | x s1 where "m s = (Inr x, s1)" "f x s1 = (out, s')"
  using assms by (auto simp: then_do_def split: prod.splits sum.splits)

lemma call_eq:
  "call ev outcome s = (out, s1) \<longleftrightarrow> out = outcome \<and> s1 = s\<lparr>trace := trace s @ [ev]\<rparr>"
  by (auto simp: call_def)

lemma ret_eq: "ret x s = (out, s1) \<longleftrightarrow> out = Inr x \<and> s1 = s"
  by (auto simp: ret_def)

lemma emits_ret: "emits P (ret x)"
  unfolding emits_def ret_def by (rule exI[of _ "Inr x"], rule exI[of _ "[]"]) simp

lemma emits_call: "P ev \<Longrightarrow> emits P (call ev outcome)"
  unfolding emits_def call_def by (rule exI[of _ outcome], rule exI[of _ "[ev]"]) simp

lemma emits_log_event: "P ev \<Longrightarrow> emits P (log_event ev)"
  unfolding emits_def log_event_def by (rule exI[of _ "Inr ()"], rule exI[of _ "[ev]"]) simp

lemma emits_then_do:
  assumes m: "emits P m" and f: "\<And>x. emits P (f x)"
  shows "emits P (then_do m f)"
proof -
  from m obtain out evs where evs: "list_all P evs"
    and ms: "\<And>s. m s = (out, s\<lparr>trace := trace s @ evs\<rparr>)"
    unfolding emits_def by blast
  show ?thesis
  proof (cases out)
    case (Inl e)
    have "\<forall>s. then_do m f s = (Inl e, s\<lparr>trace := trace s @ evs\<rparr>)"
      by (simp add: then_do_def ms Inl)
    with evs show ?thesis unfolding emits_def by blast
  next
    case (Inr x)
    from f[of x] obtain out' evs' where evs': "list_all P evs'"
      and fs: "\<And>s. f x s = (out', s\<lparr>trace := trace s @ evs'\<rparr>)"
      unfolding emits_def by blast
    have "\<forall>s. then_do m f s = (out', s\<lparr>trace := trace s @ (evs @ evs')\<rparr>)"
      by (simp add: then_do_def ms Inr fs)
    moreover have "list_all P (evs @ evs')" using evs evs' by simp
    ultimately show ?thesis unfolding emits_def by blast
  qed
qed

lemma for_each_Cons: "for_each (x # xs) body = then_do (body x) (\<lambda>_. for_each xs body)"
  by (rule ext) (simp add: then_do_def split: prod.splits sum.splits)

lemma emits_for_each:
  assumes body: "\<And>x. emits P (body x)"
  shows "emits P (for_each xs body)"
proof (induction xs)
  case Nil
  show ?case unfolding emits_def
    by (rule exI[of _ "Inr ()"], rule exI[of _ "[]"]) simp
next
  case (Cons x xs)
  then show ?case
    unfolding for_each_Cons using emits_then_do[OF body[of x], of "\<lambda>_. for_each xs body"] by simp
qed

section \<open>The client only sends\<close>

lemma emits_client_send: "emits is_send (client_send w a v)"
  unfolding client_send_def by (rule emits_call) simp

lemma emits_send_game_result: "emits is_send (send_game_result w r)"
  unfolding send_game_result_def
  by (intro emits_then_do emits_for_each emits_log_event)
     (auto intro!: emits_then_do emits_for_each emits_client_send emits_ret split: option.splits)

lemma send_game_result_frame:
  "send_game_result w r s = (send_out w r, s\<lparr>trace := trace s @ send_evs w r\<rparr>)"
  and send_evs_is_send: "list_all is_send (send_evs w r)"
proof -
  from emits_send_game_result[of w r] obtain out evs where evs: "list_all is_send evs"
    and eq: "\<And>s. send_game_result w r s = (out, s\<lparr>trace := trace s @ evs\<rparr>)"
    unfolding emits_def by blast
  have o: "send_out w r = out" by (simp add: send_out_def eq)
  have e: "send_evs w r = evs" by (simp add: send_evs_def eq init_game_def)
  show "send_game_result w r s = (send_out w r, s\<lparr>trace := trace s @ send_evs w r\<rparr>)"
    by (simp add: o e eq)
  show "list_all is_send (send_evs w r)" by (simp add: e evs)
qed

lemma send_out_any: "fst (send_game_result w r s) = send_out w r"
  by (simp add: send_game_result_frame)

lemma stage_is_send: "is_send ev \<Longrightarrow> stage ev = 8"
  by (cases ev) auto

lemma is_send_cases: "is_send ev \<longleftrightarrow> (\<exists>a v. ev = SendMessage a v) \<or> ev = Print"
  by (cases ev) auto

lemma stage_send_evs: "ev \<in> set (send_evs w r) \<Longrightarrow> stage ev = 8"
  using send_evs_is_send[of w r] by (auto simp: list_all_iff stage_is_send)

lemma is_send_send_evs: "ev \<in> set (send_evs w r) \<Longrightarrow> is_send ev"
  using send_evs_is_send[of w r] by (auto simp: list_all_iff)

lemma sorted_send_evs: "sorted (map stage (send_evs w r))"
proof -
  have "map stage (send_evs w r) = map (\<lambda>_. 8) (send_evs w r)"
    by (simp add: stage_send_evs)
  then show ?thesis by (simp add: map_replicate_const)
qed

section \<open>The stages as equations\<close>

lemma infer_emotion_eq:
  "infer_emotion w d s =
     (case numeric_features w d (FEATURE_KEYS w) [] of
        Inl e \<Rightarrow> (Inl e, s)
      | Inr feats \<Rightarrow>
          (case predict w feats of
             Inl e \<Rightarrow> (Inl e, s\<lparr>trace := trace s @ [Predict feats]\<rparr>)
           | Inr pr \<Rightarrow>
               (Inr (if confidence pr < confidence_threshold (config s) then None else Some pr),
                s\<lparr>trace := trace s @ [Predict feats]\<rparr>)))"
  by (simp add: infer_emotion_def then_do_def call_def ret_def split: sum.splits)

lemma generate_dialogue_eq:
  "generate_dialogue w ch em d s =
     (case ch of
        None \<Rightarrow> (Inr None, s)
      | Some c \<Rightarrow>
          (case em of
             None \<Rightarrow> (Inr None, s)
           | Some e \<Rightarrow>
               (case generate w (emotion_label e) (chord_label c) d (history s) of
                  Inl err \<Rightarrow>
                    (Inl err,
                     s\<lparr>trace := trace s @ [Generate (emotion_label e) (chord_label c) d (history s)]\<rparr>)
                | Inr t \<Rightarrow>
                    (Inr (Some t),
                     s\<lparr>history := append_and_trim (history_limit (config s)) (history s) t,
                       trace := trace s @ [Generate (emotion_label e) (chord_label c) d (history s),
                                  HistoryAppend t, HistoryTrim (history_limit (config s))]\<rparr>))))"
  by (simp add: generate_dialogue_def then_do_def call_def ret_def log_event_def append_and_trim_def
        split: sum.splits option.splits)

lemma assemble_and_send_eq:
  "assemble_and_send w ch em d dl s =
     (let r = \<lparr> chord = ch, emotion = em, descriptors = d, dialogue = dl \<rparr> in
      case unreal_client s of
        None \<Rightarrow> (Inr r, s\<lparr>trace := trace s @ [Assemble r]\<rparr>)
      | Some _ \<Rightarrow>
          (case send_out w r of
             Inl e \<Rightarrow> (Inl e, s\<lparr>trace := trace s @ Assemble r # send_evs w r\<rparr>)
           | Inr _ \<Rightarrow> (Inr r, s\<lparr>trace := trace s @ Assemble r # send_evs w r\<rparr>)))"
  by (simp add: assemble_and_send_def then_do_def ret_def log_event_def Let_def
        send_game_result_frame split: option.splits sum.splits)

section \<open>Runs of the two entry points\<close>

lemmas run_simps = call_eq ret_eq infer_emotion_eq generate_dialogue_eq assemble_and_send_eq Let_def

lemma events_of_run: "m s = (out, s') \<Longrightarrow> events_of m s = drop (length (trace s)) (trace s')"
  by (simp add: events_of_def)

lemma not_send_simps:
  "Generate el cl d h \<notin> set (send_evs w r)"
  "Predict feats \<notin> set (send_evs w r)"
  "Assemble r' \<notin> set (send_evs w r)"
  "HistoryAppend t \<notin> set (send_evs w r)"
  "HistoryTrim n \<notin> set (send_evs w r)"
  using is_send_send_evs[of _ w r] by fastforce+

lemma gating_audio:
  assumes "process_audio_file w p s = (out, s')"
    and "Predict feats \<in> set (drop (length (trace s)) (trace s'))"
    and "predict w feats = Inr pr" and "out = Inr r"
  shows "emotion r = (if confidence pr < confidence_threshold (config s) then None else Some pr)"
  using assms unfolding process_audio_file_def
  by (auto elim!: then_do_cases simp: run_simps not_send_simps
        split: sum.splits option.splits if_splits)

lemma gating_midi:
  assumes "process_midi_file w p s = (out, s')"
    and "Predict feats \<in> set (drop (length (trace s)) (trace s'))"
    and "predict w feats = Inr pr" and "out = Inr r"
  shows "emotion r = (if confidence pr < confidence_threshold (config s) then None else Some pr)"
  using assms unfolding process_midi_file_def
  by (auto elim!: then_do_cases simp: run_simps not_send_simps
        split: sum.splits option.splits if_splits)

lemma sink_audio:
  assumes "process_audio_file w p s = (out, s')"
    and "Assemble r \<in> set (drop (length (trace s)) (trace s'))"
  shows "out = (case unreal_client s of None \<Rightarrow> Inr r
        | Some c \<Rightarrow> (case send_out w r of Inl e \<Rightarrow> Inl e | Inr u \<Rightarrow> Inr r))"
  using assms unfolding process_audio_file_def
  by (auto elim!: then_do_cases simp: run_simps not_send_simps
        split: sum.splits option.splits if_splits)

lemma sink_midi:
  assumes "process_midi_file w p s = (out, s')"
    and "Assemble r \<in> set (drop (length (trace s)) (trace s'))"
  shows "out = (case unreal_client s of None \<Rightarrow> Inr r
        | Some c \<Rightarrow> (case send_out w r of Inl e \<Rightarrow> Inl e | Inr u \<Rightarrow> Inr r))"
  using assms unfolding process_midi_file_def
  by (auto elim!: then_do_cases simp: run_simps not_send_simps
        split: sum.splits option.splits if_splits)

lemma backend_audio:
  assumes "process_audio_file w p s = (out, s')"
    and "Generate el cl d h \<in> set (drop (length (trace s)) (trace s'))"
    and "generate w el cl d h = Inl err"
  shows "out = Inl err \<and> history s' = history s"
  using assms unfolding process_audio_file_def
  by (auto elim!: then_do_cases simp: run_simps not_send_simps
        split: sum.splits option.splits if_splits)

lemma backend_midi:
  assumes "process_midi_file w p s = (out, s')"
    and "Generate el cl d h \<in> set (drop (length (trace s)) (trace s'))"
    and "generate w el cl d h = Inl err"
  shows "out = Inl err \<and> history s' = history s"
  using assms unfolding process_midi_file_def
  by (auto elim!: then_do_cases simp: run_simps not_send_simps
        split: sum.splits option.splits if_splits)

lemma extends_audio:
  assumes "process_audio_file w p s = (out, s')"
  shows "trace s' = trace s @ drop (length (trace s)) (trace s')"
  using assms unfolding process_audio_file_def
  by (auto elim!: then_do_cases simp: run_simps not_send_simps
        split: sum.splits option.splits if_splits)

lemma extends_midi:
  assumes "process_midi_file w p s = (out, s')"
  shows "trace s' = trace s @ drop (length (trace s)) (trace s')"
  using assms unfolding process_midi_file_def
  by (auto elim!: then_do_cases simp: run_simps not_send_simps
        split: sum.splits option.splits if_splits)

lemma sorted_audio:
  assumes "process_audio_file w p s = (out, s')"
  shows "sorted (map stage (drop (length (trace s)) (trace s')))"
  using assms unfolding process_audio_file_def
  by (auto elim!: then_do_cases simp: run_simps not_send_simps sorted_append stage_send_evs sorted_send_evs
        split: sum.splits option.splits if_splits)

lemma sorted_midi:
  assumes "process_midi_file w p s = (out, s')"
  shows "sorted (map stage (drop (length (trace s)) (trace s')))"
  using assms unfolding process_midi_file_def
  by (auto elim!: then_do_cases simp: run_simps not_send_simps sorted_append stage_send_evs sorted_send_evs
        split: sum.splits option.splits if_splits)

lemma mutation_audio:
  assumes "process_audio_file w p s = (out, s')"
    and "HistoryAppend t \<in> set (drop (length (trace s)) (trace s'))"
  shows "(\<exists>el cl d h. Generate el cl d h \<in> set (drop (length (trace s)) (trace s')) \<and> generate w el cl d h = Inr t)
     \<and> HistoryTrim (history_limit (config s)) \<in> set (drop (length (trace s)) (trace s'))"
  using assms unfolding process_audio_file_def
  by (auto elim!: then_do_cases simp: run_simps not_send_simps
        split: sum.splits option.splits if_splits)

lemma mutation_midi:
  assumes "process_midi_file w p s = (out, s')"
    and "HistoryAppend t \<in> set (drop (length (trace s)) (trace s'))"
  shows "(\<exists>el cl d h. Generate el cl d h \<in> set (drop (length (trace s)) (trace s')) \<and> generate w el cl d h = Inr t)
     \<and> HistoryTrim (history_limit (config s)) \<in> set (drop (length (trace s)) (trace s'))"
  using assms unfolding process_midi_file_def
  by (auto elim!: then_do_cases simp: run_simps not_send_simps
        split: sum.splits option.splits if_splits)

lemma dispatch_audio:
  assumes "process_audio_file w p s = (out, s')"
    and "ev \<in> set (drop (length (trace s)) (trace s'))" and "is_send ev"
  shows "\<exists>r. Assemble r \<in> set (drop (length (trace s)) (trace s'))"
  using assms unfolding process_audio_file_def
  by (auto elim!: then_do_cases simp: run_simps not_send_simps
        split: sum.splits option.splits if_splits)

lemma dispatch_midi:
  assumes "process_midi_file w p s = (out, s')"
    and "ev \<in> set (drop (length (trace s)) (trace s'))" and "is_send ev"
  shows "\<exists>r. Assemble r \<in> set (drop (length (trace s)) (trace s'))"
  using assms unfolding process_midi_file_def
  by (auto elim!: then_do_cases simp: run_simps not_send_simps
        split: sum.splits option.splits if_splits)

lemma returned_audio:
  assumes "process_audio_file w p s = (out, s')"
    and "out = Inr r"
  shows "Assemble r \<in> set (drop (length (trace s)) (trace s'))"
  using assms unfolding process_audio_file_def
  by (auto elim!: then_do_cases simp: run_simps not_send_simps
        split: sum.splits option.splits if_splits)

lemma returned_midi:
  assumes "process_midi_file w p s = (out, s')"
    and "out = Inr r"
  shows "Assemble r \<in> set (drop (length (trace s)) (trace s'))"
  using assms unfolding process_midi_file_def
  by (auto elim!: then_do_cases simp: run_simps not_send_simps
        split: sum.splits option.splits if_splits)

lemma gate_audio:
  assumes "process_audio_file w p s = (Inr r, s')" and "chord r = None \<or> emotion r = None"
  shows "dialogue r = None \<and> history s' = history s
     \<and> (\<forall>el cl d h. Generate el cl d h \<notin> set (drop (length (trace s)) (trace s')))"
  using assms unfolding process_audio_file_def
  by (auto elim!: then_do_cases simp: run_simps not_send_simps
        split: sum.splits option.splits if_splits)

lemma gate_midi:
  assumes "process_midi_file w p s = (Inr r, s')" and "chord r = None \<or> emotion r = None"
  shows "dialogue r = None \<and> history s' = history s
     \<and> (\<forall>el cl d h. Generate el cl d h \<notin> set (drop (length (trace s)) (trace s')))"
  using assms unfolding process_midi_file_def
  by (auto elim!: then_do_cases simp: run_simps not_send_simps
        split: sum.splits option.splits if_splits)

section \<open>Dictionaries filled with one value\<close>

lemma map_of_fill:
  "map_of (foldl (\<lambda>acc key. AList.update key c acc) acc keys) k =
     (if k \<in> set keys then Some c else map_of acc k)"
  by (induction keys arbitrary: acc) (auto simp: update_conv')

lemma distinct_fill:
  "distinct (map fst acc) \<Longrightarrow> distinct (map fst (foldl (\<lambda>acc key. AList.update key c acc) acc keys))"
  by (induction keys arbitrary: acc) (auto simp: distinct_update)

lemma map_of_zero_descriptors:
  "map_of (zero_descriptors keys) k = (if k \<in> set keys then Some (FloatV 0) else None)"
  by (simp add: zero_descriptors_def map_of_fill)

lemma distinct_zero_descriptors: "distinct (map fst (zero_descriptors keys))"
  by (simp add: zero_descriptors_def distinct_fill)

lemma float_descriptors_fill:
  "\<forall>k\<in>set keys. map_of d k = Some (FloatV c) \<Longrightarrow>
   float_descriptors w d keys acc = Inr (foldl (\<lambda>acc key. AList.update key (FloatV c) acc) acc keys)"
  by (induction keys arbitrary: acc) (auto simp: dict_index_def)

lemma float_descriptors_zero:
  "float_descriptors w (zero_descriptors keys) keys [] = Inr (zero_descriptors keys)"
proof -
  have "\<forall>k\<in>set keys. map_of (zero_descriptors keys) k = Some (FloatV 0)"
    by (simp add: map_of_zero_descriptors)
  from float_descriptors_fill[OF this] show ?thesis
    by (simp add: zero_descriptors_def)
qed

lemma numeric_features_fill:
  "\<forall>k\<in>set keys. map_of d k = Some (FloatV c) \<Longrightarrow>
   numeric_features w d keys acc = Inr (foldl (\<lambda>acc key. AList.update key c acc) acc keys)"
  by (induction keys arbitrary: acc) (auto simp: dict_get_def)

lemma numeric_features_zero:
  "numeric_features w (zero_descriptors keys) keys [] =
     Inr (foldl (\<lambda>acc key. AList.update key 0 acc) [] keys)"
proof -
  have "\<forall>k\<in>set keys. map_of (zero_descriptors keys) k = Some (FloatV 0)"
    by (simp add: map_of_zero_descriptors)
  from numeric_features_fill[OF this] show ?thesis .
qed

lemmas midi_simps = float_descriptors_zero numeric_features_zero

lemma descriptors_midi:
  assumes "process_midi_file w p s = (out, s')" and "out = Inr r"
  shows "descriptors r = zero_descriptors (FEATURE_KEYS w)"
  using assms unfolding process_midi_file_def
  by (auto elim!: then_do_cases simp: run_simps not_send_simps midi_simps
        split: sum.splits option.splits if_splits)

lemma predict_midi:
  assumes "process_midi_file w p s = (out, s')"
    and "Predict feats \<in> set (drop (length (trace s)) (trace s'))"
  shows "feats = foldl (\<lambda>acc key. AList.update key 0 acc) [] (FEATURE_KEYS w)"
  using assms unfolding process_midi_file_def
  by (auto elim!: then_do_cases simp: run_simps not_send_simps midi_simps
        split: sum.splits option.splits if_splits)

lemma no_chroma_midi:
  assumes "process_midi_file w p s = (out, s')"
    and "derive_chroma_from_midi w p = Inr None"
  shows "out = (let r = \<lparr>chord = None, emotion = None,
                    descriptors = zero_descriptors (FEATURE_KEYS w), dialogue = None\<rparr> in
                case unreal_client s of None \<Rightarrow> Inr r
                | Some c \<Rightarrow> (case send_out w r of Inl e \<Rightarrow> Inl e | Inr u \<Rightarrow> Inr r))
     \<and> (\<forall>feats. Predict feats \<notin> set (drop (length (trace s)) (trace s')))
     \<and> (\<forall>el cl d h. Generate el cl d h \<notin> set (drop (length (trace s)) (trace s')))
     \<and> history s' = history s"
  using assms unfolding process_midi_file_def
  by (auto elim!: then_do_cases simp: run_simps not_send_simps midi_simps
        split: sum.splits option.splits if_splits)

section \<open>Coercion\<close>

lemma to_float_error: "to_float w v = Inl e \<Longrightarrow> e = ValueError"
  by (cases v) (auto split: option.splits)

lemma numeric_features_error: "numeric_features w d keys acc = Inl e \<Longrightarrow> e = ValueError"
  by (induction keys arbitrary: acc) (auto split: sum.splits dest: to_float_error)

lemma numeric_features_total:
  "\<forall>k\<in>set keys. \<forall>v. map_of d k = Some v \<longrightarrow> (\<exists>x. v = FloatV x) \<Longrightarrow>
   \<exists>feats. numeric_features w d keys acc = Inr feats"
proof (induction keys arbitrary: acc)
  case Nil
  show ?case by simp
next
  case (Cons key keys)
  have "\<exists>x. dict_get d key (FloatV 0) = FloatV x"
    using Cons.prems by (auto simp: dict_get_def split: option.splits)
  then obtain x where "dict_get d key (FloatV 0) = FloatV x" ..
  then show ?case using Cons by simp
qed

lemma numeric_features_raises:
  "k \<in> set keys \<Longrightarrow> map_of d k = Some (StrV str) \<Longrightarrow> float_str w str = None \<Longrightarrow>
   numeric_features w d keys acc = Inl ValueError"
proof (induction keys arbitrary: acc)
  case Nil
  then show ?case by simp
next
  case (Cons key keys)
  show ?case
  proof (cases "to_float w (dict_get d key (FloatV 0))")
    case (Inl e)
    then show ?thesis using to_float_error[OF Inl] by simp
  next
    case (Inr x)
    with Cons.prems have "key \<noteq> k" by (auto simp: dict_get_def)
    with Cons Inr show ?thesis by auto
  qed
qed

lemma numeric_features_lookup:
  "numeric_features w d keys acc = Inr feats \<Longrightarrow>
   (k \<in> set keys \<longrightarrow> (\<exists>x. to_float w (dict_get d k (FloatV 0)) = Inr x \<and> map_of feats k = Some x))
   \<and> (k \<notin> set keys \<longrightarrow> map_of feats k = map_of acc k)"
proof (induction keys arbitrary: acc)
  case Nil
  then show ?case by simp
next
  case (Cons key keys)
  from Cons.prems obtain x where x: "to_float w (dict_get d key (FloatV 0)) = Inr x"
    and rest: "numeric_features w d keys (AList.update key x acc) = Inr feats"
    by (auto split: sum.splits)
  from Cons.IH[OF rest] x show ?case
    by (auto simp: update_conv')
qed

section \<open>The client's messages\<close>

lemma then_do_assoc: "then_do (then_do m f) g = then_do m (\<lambda>x. then_do (f x) g)"
  by (rule ext) (simp add: then_do_def split: prod.splits sum.splits)

lemma then_do_ret: "then_do (ret x) f = f x"
  by (rule ext) (simp add: then_do_def ret_def)

lemma for_each_Nil: "for_each [] body = ret ()"
  by (rule ext) (simp add: ret_def)

lemma for_each_single: "for_each [x] body = body x"
  by (rule ext) (auto simp: split: prod.splits sum.splits)

lemma for_each_append:
  "for_each (xs @ ys) body = then_do (for_each xs body) (\<lambda>_. for_each ys body)"
  by (induction xs) (simp_all add: for_each_Nil then_do_ret for_each_Cons then_do_assoc)

lemma for_each_map: "for_each (map g xs) body = for_each xs (\<lambda>x. body (g x))"
  by (induction xs) (simp_all add: for_each_Nil for_each_Cons)

lemma send_all_append: "send_all w (xs @ ys) = then_do (send_all w xs) (\<lambda>_. send_all w ys)"
  by (simp add: send_all_def for_each_append)

lemma send_all_Nil: "send_all w [] = ret ()"
  by (simp add: send_all_def for_each_Nil)

lemma send_chord_part:
  "(case ch of None \<Rightarrow> ret () | Some c \<Rightarrow> client_send w ''/music/chord/label'' (OscStr (chord_label c)))
   = send_all w (case ch of None \<Rightarrow> [] | Some c \<Rightarrow> [(''/music/chord/label'', OscStr (chord_label c))])"
  by (simp add: send_all_def for_each_Nil for_each_single split: option.splits)

lemma send_emotion_part:
  "(case em of
      None \<Rightarrow> ret ()
    | Some e \<Rightarrow>
        then_do (client_send w ''/music/emotion/label'' (OscStr (emotion_label e))) (\<lambda>_.
        then_do (client_send w ''/music/emotion/confidence'' (OscFloat (confidence e))) (\<lambda>_.
        for_each (probabilities e) (\<lambda>(emo, prob).
          client_send w (''/music/emotion/probability/'' @ emo) (OscFloat prob)))))
   = send_all w (case em of
        None \<Rightarrow> []
      | Some e \<Rightarrow>
          [(''/music/emotion/label'', OscStr (emotion_label e)),
           (''/music/emotion/confidence'', OscFloat (confidence e))] @
          map (\<lambda>(emo, prob). (''/music/emotion/probability/'' @ emo, OscFloat prob)) (probabilities e))"
  by (simp add: send_all_def for_each_Nil for_each_Cons for_each_map case_prod_unfold
        split: option.splits)

lemma send_dialogue_part:
  "(case dl of
      None \<Rightarrow> ret ()
    | Some d \<Rightarrow>
        then_do (client_send w ''/music/llm/content'' (OscStr (content d))) (\<lambda>_.
        client_send w ''/music/llm/role'' (OscStr (role d))))
   = send_all w (case dl of
        None \<Rightarrow> []
      | Some d \<Rightarrow> [(''/music/llm/content'', OscStr (content d)), (''/music/llm/role'', OscStr (role d))])"
  by (simp add: send_all_def for_each_Nil for_each_single for_each_Cons[of _ "[x]" for x]
        split: option.splits)

lemma osc_compatible_all: "osc_compatible v"
  by (cases v) auto

lemma send_descriptors_part:
  "for_each ds (\<lambda>(key, v).
      if osc_compatible v then client_send w (''/music/descriptor/'' @ key) (osc_of v) else ret ())
   = send_all w (map (\<lambda>(key, v). (''/music/descriptor/'' @ key, osc_of v)) ds)"
  by (simp add: send_all_def for_each_map case_prod_unfold osc_compatible_all)

lemma send_game_result_messages:
  "send_game_result w r = then_do (send_all w (osc_messages r)) (\<lambda>_. log_event Print)"
  unfolding send_game_result_def send_chord_part send_emotion_part send_dialogue_part
    send_descriptors_part osc_messages_def send_all_append then_do_assoc ..

lemma send_all_ok:
  "\<forall>m\<in>set msgs. send_message w (fst m) (snd m) = None \<Longrightarrow>
   send_all w msgs s = (Inr (), s\<lparr>trace := trace s @ map (\<lambda>(a, v). SendMessage a v) msgs\<rparr>)"
  by (induction msgs arbitrary: s) (auto simp: send_all_def client_send_def call_def)

lemma send_all_prefix:
  "\<exists>k. trace (snd (send_all w msgs s)) = trace s @ map (\<lambda>(a, v). SendMessage a v) (take k msgs)
     \<and> (fst (send_all w msgs s) = Inr () \<longrightarrow> length msgs \<le> k)"
proof (induction msgs arbitrary: s)
  case Nil
  show ?case by (simp add: send_all_def)
next
  case (Cons m msgs)
  obtain a v where m: "m = (a, v)" by (cases m)
  show ?case
  proof (cases "send_message w a v")
    case None
    let ?s1 = "s\<lparr>trace := trace s @ [SendMessage a v]\<rparr>"
    have step: "send_all w (m # msgs) s = send_all w msgs ?s1"
      by (simp add: send_all_def m client_send_def call_def None)
    from Cons[of ?s1] obtain k where
      k: "trace (snd (send_all w msgs ?s1)) = trace ?s1 @ map (\<lambda>(a, v). SendMessage a v) (take k msgs)"
         "fst (send_all w msgs ?s1) = Inr () \<longrightarrow> length msgs \<le> k"
      by blast
    show ?thesis
      by (rule exI[of _ "Suc k"]) (use k step[unfolded m] in \<open>simp add: m\<close>)
  next
    case (Some e)
    have "send_all w (m # msgs) s = (Inl e, s\<lparr>trace := trace s @ [SendMessage a v]\<rparr>)"
      by (simp add: send_all_def m client_send_def call_def Some)
    then show ?thesis
      by (intro exI[of _ "Suc 0"]) (simp add: m)
  qed
qed

section \<open>Claims\<close>

text \<open>
  Claim C5 (dialogue gate). Whenever a request returns a result whose chord is unset or
  whose gated emotion is unset, the result's dialogue is unset, the request made no call to
  the text-generation backend, and the conversation history is what it was before the
  request. Dialogue is therefore attempted only when both are present.
\<close>

theorem dialogue_gate:
  assumes "run = process_audio_file w p \<or> run = process_midi_file w p"
    and "fst (run s) = Inr r"
    and "chord r = None \<or> emotion r = None"
  shows "dialogue r = None
     \<and> (\<forall>el cl d h. Generate el cl d h \<notin> set (events_of run s))
     \<and> history (snd (run s)) = history s"
proof -
  obtain s' where run: "run s = (Inr r, s')"
    using assms(2) by (cases "run s") auto
  from assms(1) show ?thesis
  proof
    assume "run = process_audio_file w p"
    with run gate_audio[of w p s r s'] assms(3) show ?thesis
      by (simp add: events_of_def)
  next
    assume "run = process_midi_file w p"
    with run gate_midi[of w p s r s'] assms(3) show ?thesis
      by (simp add: events_of_def)
  qed
qed

theorem dialogue_gate_witness:
  "fst (process_audio_file unsure_world ''a.wav'' (init_game default_config)) =
     Inr \<lparr>chord = Some demo_chord, emotion = None, descriptors = demo_descriptors, dialogue = None\<rparr>
   \<and> history (snd (process_audio_file unsure_world ''a.wav'' (init_game default_config))) = []
   \<and> Generate ''tense'' ''Dm'' demo_descriptors []
       \<notin> set (events_of (process_audio_file unsure_world ''a.wav'') (init_game default_config))"
proof -
  let ?r = "\<lparr>chord = Some demo_chord, emotion = None, descriptors = demo_descriptors, dialogue = None\<rparr>"
  have ret: "fst (process_audio_file unsure_world ''a.wav'' (init_game default_config)) = Inr ?r"
    by code_simp
  have unset: "chord ?r = None \<or> emotion ?r = None" by simp
  from dialogue_gate[OF disjI1[OF refl] ret unset] ret show ?thesis
    by (simp add: init_game_def)
qed

text \<open>
  Claim C4 (confidence gating). When a request that called the classifier returns a result:
  if the confidence of the classifier's prediction is strictly below the configured
  threshold the result's emotion is unset, whatever the prediction was; if it is at least
  the threshold the result's emotion is that prediction.
\<close>

theorem confidence_gating:
  assumes "run = process_audio_file w p \<or> run = process_midi_file w p"
    and "fst (run s) = Inr r"
    and "Predict feats \<in> set (events_of run s)"
    and "predict w feats = Inr pr"
  shows "(confidence pr < confidence_threshold (config s) \<longrightarrow> emotion r = None)
     \<and> (confidence_threshold (config s) \<le> confidence pr \<longrightarrow> emotion r = Some pr)"
proof -
  obtain s' where run: "run s = (Inr r, s')"
    using assms(2) by (cases "run s") auto
  then have ev: "Predict feats \<in> set (drop (length (trace s)) (trace s'))"
    using assms(3) by (simp add: events_of_def)
  have "emotion r = (if confidence pr < confidence_threshold (config s) then None else Some pr)"
    using assms(1) run ev assms(4) gating_audio[of w p s "Inr r" s' feats pr r]
      gating_midi[of w p s "Inr r" s' feats pr r]
    by auto
  then show ?thesis by auto
qed

theorem confidence_gating_witness:
  "confidence (demo_emotion\<lparr>confidence := 0.3\<rparr>) < confidence_threshold (config (init_game default_config))
   \<and> fst (process_audio_file unsure_world ''a.wav'' (init_game default_config)) =
       Inr \<lparr>chord = Some demo_chord, emotion = None, descriptors = demo_descriptors, dialogue = None\<rparr>
   \<and> confidence_threshold (config (init_game default_config)) \<le> confidence demo_emotion
   \<and> fst (process_audio_file demo_world ''a.wav'' (init_game default_config)) =
       Inr \<lparr>chord = Some demo_chord, emotion = Some demo_emotion, descriptors = demo_descriptors,
            dialogue = Some demo_turn\<rparr>"
proof -
  let ?s = "init_game default_config"
  let ?feats = "[(''tempo'', 180), (''energy'', 0.9)] :: (string \<times> real) list"
  let ?low = "\<lparr>chord = Some demo_chord, emotion = None, descriptors = demo_descriptors, dialogue = None\<rparr>"
  let ?high = "\<lparr>chord = Some demo_chord, emotion = Some demo_emotion, descriptors = demo_descriptors,
            dialogue = Some demo_turn\<rparr>"
  have low: "fst (process_audio_file unsure_world ''a.wav'' ?s) = Inr ?low" by code_simp
  have low_ev: "Predict ?feats \<in> set (events_of (process_audio_file unsure_world ''a.wav'') ?s)"
    by code_simp
  have low_pr: "predict unsure_world ?feats = Inr (demo_emotion\<lparr>confidence := 0.3\<rparr>)"
    by (simp add: unsure_world_def demo_world_def)
  have high: "fst (process_audio_file demo_world ''a.wav'' ?s) = Inr ?high" by code_simp
  have high_ev: "Predict ?feats \<in> set (events_of (process_audio_file demo_world ''a.wav'') ?s)"
    by code_simp
  have high_pr: "predict demo_world ?feats = Inr demo_emotion"
    by (simp add: demo_world_def)
  have c1: "confidence (demo_emotion\<lparr>confidence := 0.3\<rparr>) < confidence_threshold (config ?s)"
    by (simp add: init_game_def default_config_def)
  have c2: "confidence_threshold (config ?s) \<le> confidence demo_emotion"
    by (simp add: init_game_def default_config_def demo_emotion_def)
  from confidence_gating[OF disjI1[OF refl] low low_ev low_pr]
       confidence_gating[OF disjI1[OF refl] high high_ev high_pr] c1 c2 low high
  show ?thesis by simp
qed

text \<open>
  Claim C1 (sink isolation) fails as stated: with a sink whose send raises, the audio
  request returns no result; the caller gets the sink's exception.
\<close>

theorem sink_failure_counterexample:
  "fst (process_audio_file sink_down_world ''a.wav'' (init_game unreal_config)) = Inl (Raised ''OSError'')"
  by code_simp

text \<open>
  Claim C1 (sink isolation), as the code has it. The orchestrator has one optional sink and
  no handler around its call: once the result is assembled, a request returns that result
  when no sink is configured or when the sink's send returns, and otherwise ends with the
  very exception the send raised, returning no result.
\<close>

theorem sink_failure_propagates:
  assumes "run = process_audio_file w p \<or> run = process_midi_file w p"
    and "Assemble r \<in> set (events_of run s)"
  shows "fst (run s) =
     (case unreal_client s of
        None \<Rightarrow> Inr r
      | Some c \<Rightarrow> (case fst (send_game_result w r s0) of Inl e \<Rightarrow> Inl e | Inr u \<Rightarrow> Inr r))"
proof -
  obtain out s' where run: "run s = (out, s')" by (cases "run s")
  then have ev: "Assemble r \<in> set (drop (length (trace s)) (trace s'))"
    using assms(2) by (simp add: events_of_def)
  have "out = (case unreal_client s of None \<Rightarrow> Inr r
        | Some c \<Rightarrow> (case send_out w r of Inl e \<Rightarrow> Inl e | Inr u \<Rightarrow> Inr r))"
    using assms(1) run ev sink_audio[of w p s out s' r] sink_midi[of w p s out s' r] by auto
  then show ?thesis unfolding send_out_any by (simp add: run)
qed

theorem sink_failure_propagates_witness:
  "Assemble \<lparr>chord = Some demo_chord, emotion = Some demo_emotion, descriptors = demo_descriptors,
              dialogue = Some demo_turn\<rparr>
     \<in> set (events_of (process_audio_file sink_down_world ''a.wav'') (init_game unreal_config))
   \<and> fst (process_audio_file sink_down_world ''a.wav'' (init_game unreal_config)) = Inl (Raised ''OSError'')"
proof -
  let ?r = "\<lparr>chord = Some demo_chord, emotion = Some demo_emotion, descriptors = demo_descriptors,
              dialogue = Some demo_turn\<rparr>"
  have ev: "Assemble ?r \<in> set (events_of (process_audio_file sink_down_world ''a.wav'') (init_game unreal_config))"
    by code_simp
  have sink: "fst (send_game_result sink_down_world ?r (init_game default_config)) = Inl (Raised ''OSError'')"
    by code_simp
  have client: "unreal_client (init_game unreal_config) = Some (''127.0.0.1'', 7000)"
    by code_simp
  from sink_failure_propagates[OF disjI1[OF refl] ev, of "init_game default_config"] ev
  show ?thesis by (simp add: sink client)
qed

text \<open>
  Claim C2 (backend failure) fails as stated: with chord and gated emotion present and a
  backend that raises, the audio request returns no result; the caller gets the backend's
  exception.
\<close>

theorem backend_failure_counterexample:
  "fst (process_audio_file backend_down_world ''a.wav'' (init_game default_config)) =
     Inl (Raised ''ConnectionError'')"
  by code_simp

text \<open>
  Claim C2 (backend failure), as the code has it. Nothing catches an exception of the
  text-generation backend: a request that called the backend and got an exception ends with
  that exception, returns no result, and leaves the conversation history as it was.
\<close>

theorem backend_failure_propagates:
  assumes "run = process_audio_file w p \<or> run = process_midi_file w p"
    and "Generate el cl d h \<in> set (events_of run s)"
    and "generate w el cl d h = Inl err"
  shows "fst (run s) = Inl err \<and> history (snd (run s)) = history s"
proof -
  obtain out s' where run: "run s = (out, s')" by (cases "run s")
  then have ev: "Generate el cl d h \<in> set (drop (length (trace s)) (trace s'))"
    using assms(2) by (simp add: events_of_def)
  have "out = Inl err \<and> history s' = history s"
    using assms(1,3) run ev backend_audio[of w p s out s' el cl d h err]
      backend_midi[of w p s out s' el cl d h err] by auto
  then show ?thesis by (simp add: run)
qed

theorem backend_failure_propagates_witness:
  "Generate ''tense'' ''Dm'' demo_descriptors []
     \<in> set (events_of (process_audio_file backend_down_world ''a.wav'') (init_game default_config))
   \<and> generate backend_down_world ''tense'' ''Dm'' demo_descriptors [] = Inl (Raised ''ConnectionError'')
   \<and> fst (process_audio_file backend_down_world ''a.wav'' (init_game default_config)) =
       Inl (Raised ''ConnectionError'')
   \<and> history (snd (process_audio_file backend_down_world ''a.wav'' (init_game default_config))) = []"
proof -
  have ev: "Generate ''tense'' ''Dm'' demo_descriptors []
     \<in> set (events_of (process_audio_file backend_down_world ''a.wav'') (init_game default_config))"
    by code_simp
  have raises: "generate backend_down_world ''tense'' ''Dm'' demo_descriptors [] = Inl (Raised ''ConnectionError'')"
    by (simp add: backend_down_world_def)
  from backend_failure_propagates[OF disjI1[OF refl] ev raises] ev raises
  show ?thesis by (simp add: init_game_def)
qed

text \<open>
  Claim C7 (side-effect ordering). The events of every request, whatever its outcome, occur
  in the order of the algorithm's steps: chroma acquisition, chord estimation, descriptor
  acquisition, emotion inference, dialogue generation, history mutation, result assembly,
  broadcast dispatch. A history append happens only after a backend call that returned the
  appended turn, together with the trim, and before the result is assembled; every message
  to the sink comes after the assembly of the result; the trace only grows.
\<close>

theorem stage_order:
  assumes "run = process_audio_file w p \<or> run = process_midi_file w p"
  shows "trace (snd (run s)) = trace s @ events_of run s
     \<and> sorted (map stage (events_of run s))
     \<and> (\<forall>t. HistoryAppend t \<in> set (events_of run s) \<longrightarrow>
           (\<exists>el cl d h. Generate el cl d h \<in> set (events_of run s) \<and> generate w el cl d h = Inr t)
           \<and> HistoryTrim (history_limit (config s)) \<in> set (events_of run s))
     \<and> (\<forall>ev. ev \<in> set (events_of run s) \<and> is_send ev \<longrightarrow> (\<exists>r. Assemble r \<in> set (events_of run s)))
     \<and> (\<forall>r. fst (run s) = Inr r \<longrightarrow> Assemble r \<in> set (events_of run s))"
proof -
  obtain out s' where run: "run s = (out, s')" by (cases "run s")
  let ?evs = "drop (length (trace s)) (trace s')"
  have evs: "events_of run s = ?evs" by (simp add: events_of_def run)
  have 1: "trace s' = trace s @ ?evs"
    using assms run extends_audio[of w p s out s'] extends_midi[of w p s out s'] by auto
  have 2: "sorted (map stage ?evs)"
    using assms run sorted_audio[of w p s out s'] sorted_midi[of w p s out s'] by auto
  have 3: "(\<exists>el cl d h. Generate el cl d h \<in> set ?evs \<and> generate w el cl d h = Inr t)
           \<and> HistoryTrim (history_limit (config s)) \<in> set ?evs"
    if "HistoryAppend t \<in> set ?evs" for t
    using assms run that mutation_audio[of w p s out s' t] mutation_midi[of w p s out s' t] by auto
  have 4: "\<exists>r. Assemble r \<in> set ?evs" if "ev \<in> set ?evs" "is_send ev" for ev
    using assms run that dispatch_audio[of w p s out s' ev] dispatch_midi[of w p s out s' ev] by auto
  have 5: "Assemble r \<in> set ?evs" if "out = Inr r" for r
    using assms run that returned_audio[of w p s out s' r] returned_midi[of w p s out s' r] by auto
  show ?thesis
    unfolding evs using 1 2 3 4 5 by (simp add: run) blast
qed

theorem stage_order_witness:
  "map stage (events_of (process_audio_file demo_world ''a.wav'') (init_game unreal_config)) =
     [1, 1, 2, 3, 4, 5, 6, 6, 7, 8, 8, 8, 8, 8, 8, 8, 8, 8, 8, 8, 8, 8]
   \<and> sorted (map stage (events_of (process_audio_file demo_world ''a.wav'') (init_game unreal_config)))
   \<and> HistoryAppend demo_turn
       \<in> set (events_of (process_audio_file demo_world ''a.wav'') (init_game unreal_config))
   \<and> HistoryTrim 6
       \<in> set (events_of (process_audio_file demo_world ''a.wav'') (init_game unreal_config))
   \<and> is_send Print
   \<and> Print \<in> set (events_of (process_audio_file demo_world ''a.wav'') (init_game unreal_config))
   \<and> fst (process_audio_file demo_world ''a.wav'' (init_game unreal_config)) =
       Inr \<lparr>chord = Some demo_chord, emotion = Some demo_emotion, descriptors = demo_descriptors,
            dialogue = Some demo_turn\<rparr>
   \<and> Assemble \<lparr>chord = Some demo_chord, emotion = Some demo_emotion, descriptors = demo_descriptors,
            dialogue = Some demo_turn\<rparr>
       \<in> set (events_of (process_audio_file demo_world ''a.wav'') (init_game unreal_config))"
proof -
  let ?run = "process_audio_file demo_world ''a.wav''"
  let ?s = "init_game unreal_config"
  let ?r = "\<lparr>chord = Some demo_chord, emotion = Some demo_emotion, descriptors = demo_descriptors,
            dialogue = Some demo_turn\<rparr>"
  have stages: "map stage (events_of ?run ?s) =
     [1, 1, 2, 3, 4, 5, 6, 6, 7, 8, 8, 8, 8, 8, 8, 8, 8, 8, 8, 8, 8, 8]"
    by code_simp
  have app: "HistoryAppend demo_turn \<in> set (events_of ?run ?s)" by code_simp
  have pr: "Print \<in> set (events_of ?run ?s)" by code_simp
  have ret: "fst (?run ?s) = Inr ?r" by code_simp
  have lim: "history_limit (config ?s) = 6" by code_simp
  from stage_order[OF disjI1[OF refl], of demo_world "''a.wav''" ?s] stages app pr ret lim
  show ?thesis by auto
qed

text \<open>
  Claim C6 (MIDI without chroma). When the chroma derivation of a MIDI request yields no
  chroma, any result the request returns has chord, emotion and dialogue unset and the
  zero-filled mapping over the declared feature keys as descriptors; the classifier is not
  called; and with no sink configured the request does return that result.
\<close>

theorem midi_no_chroma:
  assumes "derive_chroma_from_midi w p = Inr None"
  shows "(\<forall>r. fst (process_midi_file w p s) = Inr r \<longrightarrow>
            chord r = None \<and> emotion r = None \<and> dialogue r = None
            \<and> descriptors r = zero_descriptors (FEATURE_KEYS w))
     \<and> distinct (map fst (zero_descriptors (FEATURE_KEYS w)))
     \<and> (\<forall>k. map_of (zero_descriptors (FEATURE_KEYS w)) k =
            (if k \<in> set (FEATURE_KEYS w) then Some (FloatV 0) else None))
     \<and> (\<forall>feats. Predict feats \<notin> set (events_of (process_midi_file w p) s))
     \<and> (unreal_client s = None \<longrightarrow>
           fst (process_midi_file w p s) =
             Inr \<lparr>chord = None, emotion = None,
                  descriptors = zero_descriptors (FEATURE_KEYS w), dialogue = None\<rparr>)"
proof -
  obtain out s' where run: "process_midi_file w p s = (out, s')"
    by (cases "process_midi_file w p s")
  from no_chroma_midi[OF run assms] show ?thesis
    by (auto simp: run events_of_def Let_def map_of_zero_descriptors distinct_zero_descriptors
          split: option.splits sum.splits)
qed

theorem midi_no_chroma_witness:
  "derive_chroma_from_midi demo_world ''silent.mid'' = Inr None
   \<and> unreal_client (init_game default_config) = None
   \<and> fst (process_midi_file demo_world ''silent.mid'' (init_game default_config)) =
       Inr \<lparr>chord = None, emotion = None,
            descriptors = [(''tempo'', FloatV 0), (''energy'', FloatV 0)], dialogue = None\<rparr>"
proof -
  have none: "derive_chroma_from_midi demo_world ''silent.mid'' = Inr None"
    by (simp add: demo_world_def)
  have client: "unreal_client (init_game default_config) = None"
    by (simp add: init_game_def default_config_def)
  have zero: "zero_descriptors (FEATURE_KEYS demo_world) = [(''tempo'', FloatV 0), (''energy'', FloatV 0)]"
    by (simp add: zero_descriptors_def demo_world_def)
  from midi_no_chroma[OF none, of "init_game default_config"] none client
  show ?thesis by (simp add: zero)
qed

text \<open>
  Claim C9 (MIDI descriptors). The descriptors of every result of a MIDI request are the
  zero-filled mapping over the declared feature keys, chord or no chord, and every feature
  vector the classifier receives on the MIDI path binds exactly the declared keys, each
  to zero.
\<close>

theorem midi_descriptors_zero:
  "(\<forall>r. fst (process_midi_file w p s) = Inr r \<longrightarrow>
       descriptors r = zero_descriptors (FEATURE_KEYS w))
   \<and> (\<forall>feats. Predict feats \<in> set (events_of (process_midi_file w p) s) \<longrightarrow>
         distinct (map fst feats)
         \<and> (\<forall>k. map_of feats k = (if k \<in> set (FEATURE_KEYS w) then Some 0 else None)))
   \<and> distinct (map fst (zero_descriptors (FEATURE_KEYS w)))
   \<and> (\<forall>k. map_of (zero_descriptors (FEATURE_KEYS w)) k =
          (if k \<in> set (FEATURE_KEYS w) then Some (FloatV 0) else None))"
proof -
  obtain out s' where run: "process_midi_file w p s = (out, s')"
    by (cases "process_midi_file w p s")
  have 1: "descriptors r = zero_descriptors (FEATURE_KEYS w)" if "out = Inr r" for r
    using descriptors_midi[OF run that] .
  have 2: "distinct (map fst feats)
      \<and> (\<forall>k. map_of feats k = (if k \<in> set (FEATURE_KEYS w) then Some 0 else None))"
    if "Predict feats \<in> set (drop (length (trace s)) (trace s'))" for feats
    using predict_midi[OF run that] by (simp add: map_of_fill distinct_fill)
  show ?thesis
    using 1 2 by (simp add: run events_of_def map_of_zero_descriptors distinct_zero_descriptors)
qed

theorem midi_descriptors_zero_witness:
  "fst (process_midi_file demo_world ''a.mid'' (init_game default_config)) =
     Inr \<lparr>chord = Some demo_chord, emotion = Some demo_emotion,
          descriptors = [(''tempo'', FloatV 0), (''energy'', FloatV 0)], dialogue = Some demo_turn\<rparr>
   \<and> Predict [(''tempo'', 0), (''energy'', 0)]
       \<in> set (events_of (process_midi_file demo_world ''a.mid'') (init_game default_config))
   \<and> map_of [(''tempo'', 0 :: real), (''energy'', 0)] ''tempo'' = Some 0
   \<and> zero_descriptors (FEATURE_KEYS demo_world) = [(''tempo'', FloatV 0), (''energy'', FloatV 0)]"
proof -
  let ?r = "\<lparr>chord = Some demo_chord, emotion = Some demo_emotion,
          descriptors = [(''tempo'', FloatV 0), (''energy'', FloatV 0)], dialogue = Some demo_turn\<rparr>"
  have ret: "fst (process_midi_file demo_world ''a.mid'' (init_game default_config)) = Inr ?r"
    by code_simp
  have ev: "Predict [(''tempo'', 0), (''energy'', 0)]
       \<in> set (events_of (process_midi_file demo_world ''a.mid'') (init_game default_config))"
    by code_simp
  from midi_descriptors_zero[of demo_world "''a.mid''" "init_game default_config"] ret ev
  show ?thesis by auto
qed

text \<open>
  Claim C10 (feature coercion). If every declared feature key that the descriptor mapping
  binds is bound to a number, the coercion returns a feature vector: each declared key gets
  its number, or zero when the mapping does not bind it. If some declared key is bound to a
  string that is not numeric, the coercion raises ValueError, emotion inference raises it
  without calling the classifier, and an audio request whose descriptor extraction returned
  that mapping ends with ValueError instead of a result.
\<close>

theorem feature_coercion:
  "((\<forall>k\<in>set (FEATURE_KEYS w). \<forall>v. map_of d k = Some v \<longrightarrow> (\<exists>x. v = FloatV x)) \<longrightarrow>
      (\<exists>feats. numeric_features w d (FEATURE_KEYS w) [] = Inr feats
         \<and> (\<forall>k\<in>set (FEATURE_KEYS w).
               map_of feats k = Some (case map_of d k of Some (FloatV x) \<Rightarrow> x | _ \<Rightarrow> 0))))
   \<and> (k \<in> set (FEATURE_KEYS w) \<and> map_of d k = Some (StrV str) \<and> float_str w str = None \<longrightarrow>
        numeric_features w d (FEATURE_KEYS w) [] = Inl ValueError
        \<and> infer_emotion w d s = (Inl ValueError, s))
   \<and> (k \<in> set (FEATURE_KEYS w) \<and> map_of d k = Some (StrV str) \<and> float_str w str = None
        \<and> load_audio_samples w p (sample_rate (config s)) = Inr (smp, sr)
        \<and> compute_chroma w smp sr (hop_length (config s)) = Inr chr
        \<and> estimate_chord w chr = Inr ch
        \<and> extract_essentia_descriptors w smp sr = Inr d \<longrightarrow>
        fst (process_audio_file w p s) = Inl ValueError
        \<and> (\<forall>feats. Predict feats \<notin> set (events_of (process_audio_file w p) s)))"
proof (intro conjI impI)
  assume num: "\<forall>k\<in>set (FEATURE_KEYS w). \<forall>v. map_of d k = Some v \<longrightarrow> (\<exists>x. v = FloatV x)"
  from numeric_features_total[OF num] obtain feats
    where feats: "numeric_features w d (FEATURE_KEYS w) [] = Inr feats" by blast
  have "map_of feats k = Some (case map_of d k of Some (FloatV x) \<Rightarrow> x | _ \<Rightarrow> 0)"
    if k: "k \<in> set (FEATURE_KEYS w)" for k
  proof -
    from numeric_features_lookup[OF feats, of k] k obtain x
      where x: "to_float w (dict_get d k (FloatV 0)) = Inr x" "map_of feats k = Some x" by blast
    show ?thesis
    proof (cases "map_of d k")
      case None
      with x show ?thesis by (simp add: dict_get_def)
    next
      case (Some v)
      with num k obtain y where "v = FloatV y" by blast
      with Some x show ?thesis by (simp add: dict_get_def)
    qed
  qed
  with feats show "\<exists>feats. numeric_features w d (FEATURE_KEYS w) [] = Inr feats
         \<and> (\<forall>k\<in>set (FEATURE_KEYS w).
               map_of feats k = Some (case map_of d k of Some (FloatV x) \<Rightarrow> x | _ \<Rightarrow> 0))"
    by blast
next
  assume "k \<in> set (FEATURE_KEYS w) \<and> map_of d k = Some (StrV str) \<and> float_str w str = None"
  then show "numeric_features w d (FEATURE_KEYS w) [] = Inl ValueError"
    using numeric_features_raises[of k "FEATURE_KEYS w" d str w "[]"] by blast
next
  assume "k \<in> set (FEATURE_KEYS w) \<and> map_of d k = Some (StrV str) \<and> float_str w str = None"
  then have "numeric_features w d (FEATURE_KEYS w) [] = Inl ValueError"
    using numeric_features_raises[of k "FEATURE_KEYS w" d str w "[]"] by blast
  then show "infer_emotion w d s = (Inl ValueError, s)"
    by (simp add: infer_emotion_eq)
next
  assume a: "k \<in> set (FEATURE_KEYS w) \<and> map_of d k = Some (StrV str) \<and> float_str w str = None
        \<and> load_audio_samples w p (sample_rate (config s)) = Inr (smp, sr)
        \<and> compute_chroma w smp sr (hop_length (config s)) = Inr chr
        \<and> estimate_chord w chr = Inr ch
        \<and> extract_essentia_descriptors w smp sr = Inr d"
  then have raises: "numeric_features w d (FEATURE_KEYS w) [] = Inl ValueError"
    using numeric_features_raises[of k "FEATURE_KEYS w" d str w "[]"] by blast
  have run: "process_audio_file w p s =
     (Inl ValueError,
      s\<lparr>trace := trace s @ [LoadAudioSamples p (sample_rate (config s)),
           ComputeChroma smp sr (hop_length (config s)), EstimateChord chr,
           ExtractDescriptors smp sr]\<rparr>)"
    using a by (simp add: process_audio_file_def then_do_def call_def infer_emotion_eq raises)
  show "fst (process_audio_file w p s) = Inl ValueError" by (simp add: run)
  show "\<forall>feats. Predict feats \<notin> set (events_of (process_audio_file w p) s)"
    by (simp add: run events_of_def)
qed

theorem feature_coercion_witness:
  "map_of demo_descriptors ''tempo'' = Some (FloatV 180)
   \<and> map_of demo_descriptors ''energy'' = Some (FloatV 0.9)
   \<and> numeric_features demo_world demo_descriptors (FEATURE_KEYS demo_world) [] =
       Inr [(''tempo'', 180), (''energy'', 0.9)]
   \<and> ''scale'' \<in> set (FEATURE_KEYS scale_world)
   \<and> map_of demo_descriptors ''scale'' = Some (StrV ''minor'')
   \<and> float_str scale_world ''minor'' = None
   \<and> numeric_features scale_world demo_descriptors (FEATURE_KEYS scale_world) [] = Inl ValueError
   \<and> fst (process_audio_file scale_world ''a.wav'' (init_game default_config)) = Inl ValueError"
proof -
  let ?s = "init_game default_config"
  have keys: "FEATURE_KEYS demo_world = [''tempo'', ''energy'']"
    by (simp add: demo_world_def)
  have t: "map_of demo_descriptors ''tempo'' = Some (FloatV 180)"
    and e: "map_of demo_descriptors ''energy'' = Some (FloatV 0.9)"
    and sc: "map_of demo_descriptors ''scale'' = Some (StrV ''minor'')"
    by (simp_all add: demo_descriptors_def)
  have num: "\<forall>k\<in>set (FEATURE_KEYS demo_world). \<forall>v. map_of demo_descriptors k = Some v \<longrightarrow> (\<exists>x. v = FloatV x)"
  proof (intro ballI allI impI)
    fix k v
    assume "k \<in> set (FEATURE_KEYS demo_world)" "map_of demo_descriptors k = Some v"
    then have "v = FloatV 180 \<or> v = FloatV 0.9" using t e by (auto simp: keys)
    then show "\<exists>x. v = FloatV x" by blast
  qed
  have val: "numeric_features demo_world demo_descriptors (FEATURE_KEYS demo_world) [] =
       Inr [(''tempo'', 180), (''energy'', 0.9)]"
    by (simp add: keys dict_get_def t e)
  have k: "''scale'' \<in> set (FEATURE_KEYS scale_world)"
    by (simp add: scale_world_def demo_world_def)
  have nofloat: "float_str scale_world ''minor'' = None"
    by (simp add: scale_world_def demo_world_def)
  have pre: "load_audio_samples scale_world ''a.wav'' (sample_rate (config ?s)) = Inr ([0.1, 0.2], 22050)
      \<and> compute_chroma scale_world [0.1, 0.2] 22050 (hop_length (config ?s)) = Inr [[1, 0, 0]]
      \<and> estimate_chord scale_world [[1, 0, 0]] = Inr (Some demo_chord)
      \<and> extract_essentia_descriptors scale_world [0.1, 0.2] 22050 = Inr demo_descriptors"
    by (simp add: scale_world_def demo_world_def init_game_def default_config_def)
  from feature_coercion[of demo_world demo_descriptors "''tempo''" "''minor''" ?s
          "''a.wav''" "[]" 0 "[]" None] num
  have total: "\<exists>feats. numeric_features demo_world demo_descriptors (FEATURE_KEYS demo_world) [] = Inr feats"
    by blast
  from feature_coercion[of scale_world demo_descriptors "''scale''" "''minor''" ?s
          "''a.wav''" "[0.1, 0.2]" 22050 "[[1, 0, 0]]" "Some demo_chord"] k sc nofloat pre
  have abort: "numeric_features scale_world demo_descriptors (FEATURE_KEYS scale_world) [] = Inl ValueError
      \<and> fst (process_audio_file scale_world ''a.wav'' ?s) = Inl ValueError"
    by blast
  from total abort t e sc k nofloat val show ?thesis by simp
qed

text \<open>
  Claim C8 (broadcast message scheme) fails as stated on the addresses: for a result with
  only a dialogue turn the client sends to /music/llm/content and /music/llm/role, not to
  addresses of a dialogue namespace.
\<close>

theorem message_scheme_counterexample:
  "events_of (send_game_result demo_world
       \<lparr>chord = None, emotion = None, descriptors = [], dialogue = Some demo_turn\<rparr>)
     (init_game default_config) =
   [SendMessage ''/music/llm/content'' (OscStr ''A storm is coming.''),
    SendMessage ''/music/llm/role'' (OscStr ''assistant''), Print]"
  by code_simp

text \<open>
  Claim C8 (broadcast message scheme), as the code has it. The messages the client is
  handed for a result are always an initial part of the list: chord label; emotion label,
  confidence and one probability per label; dialogue content and role; one message per
  descriptor; then the closing print. The addresses are /music/chord/label,
  /music/emotion/label, /music/emotion/confidence, /music/emotion/probability/<label>,
  /music/llm/content, /music/llm/role and /music/descriptor/<key>, each message carries one
  string or float, and an unset field contributes no message. When no send raises the whole
  list is sent.
\<close>

theorem message_scheme:
  "(\<exists>k. events_of (send_game_result w r) s =
          take k (map (\<lambda>(a, v). SendMessage a v) (osc_messages r) @ [Print]))
   \<and> (list_all (\<lambda>(a, v). send_message w a v = None) (osc_messages r) \<longrightarrow>
        send_game_result w r s =
          (Inr (), s\<lparr>trace := trace s @ map (\<lambda>(a, v). SendMessage a v) (osc_messages r) @ [Print]\<rparr>))"
proof
  let ?msgs = "osc_messages r"
  let ?ev = "\<lambda>(a, v). SendMessage a v"
  obtain out s1 where sent: "send_all w ?msgs s = (out, s1)" by (cases "send_all w ?msgs s")
  from send_all_prefix[of w ?msgs s] obtain k
    where tr: "trace s1 = trace s @ map ?ev (take k ?msgs)"
      and full: "out = Inr () \<longrightarrow> length ?msgs \<le> k"
    by (auto simp: sent)
  show "\<exists>k. events_of (send_game_result w r) s = take k (map ?ev ?msgs @ [Print])"
  proof (cases out)
    case (Inl e)
    then have "events_of (send_game_result w r) s = map ?ev (take k ?msgs)"
      by (simp add: events_of_def send_game_result_messages then_do_def sent tr)
    also have "\<dots> = take (min k (length ?msgs)) (map ?ev ?msgs @ [Print])"
      by (simp add: take_map min_def)
    finally show ?thesis by blast
  next
    case (Inr u)
    with full have "take k ?msgs = ?msgs" by simp
    with Inr have "events_of (send_game_result w r) s = map ?ev ?msgs @ [Print]"
      by (simp add: events_of_def send_game_result_messages then_do_def sent tr log_event_def)
    also have "\<dots> = take (Suc (length ?msgs)) (map ?ev ?msgs @ [Print])"
      by simp
    finally show ?thesis by blast
  qed
next
  show "list_all (\<lambda>(a, v). send_message w a v = None) (osc_messages r) \<longrightarrow>
        send_game_result w r s =
          (Inr (), s\<lparr>trace := trace s @ map (\<lambda>(a, v). SendMessage a v) (osc_messages r) @ [Print]\<rparr>)"
  proof
    assume "list_all (\<lambda>(a, v). send_message w a v = None) (osc_messages r)"
    then have "\<forall>m\<in>set (osc_messages r). send_message w (fst m) (snd m) = None"
      by (auto simp: list_all_iff)
    from send_all_ok[OF this, of s] show "send_game_result w r s =
          (Inr (), s\<lparr>trace := trace s @ map (\<lambda>(a, v). SendMessage a v) (osc_messages r) @ [Print]\<rparr>)"
      by (simp add: send_game_result_messages then_do_def log_event_def)
  qed
qed

theorem message_scheme_witness:
  "list_all (\<lambda>(a, v). send_message demo_world a v = None)
     (osc_messages \<lparr>chord = Some demo_chord, emotion = None, descriptors = demo_descriptors,
                     dialogue = Some demo_turn\<rparr>)
   \<and> fst (send_game_result demo_world
            \<lparr>chord = Some demo_chord, emotion = None, descriptors = demo_descriptors,
             dialogue = Some demo_turn\<rparr> (init_game default_config)) = Inr ()
   \<and> osc_messages \<lparr>chord = Some demo_chord, emotion = None, descriptors = demo_descriptors,
                    dialogue = Some demo_turn\<rparr> =
       [(''/music/chord/label'', OscStr ''Dm''),
        (''/music/llm/content'', OscStr ''A storm is coming.''),
        (''/music/llm/role'', OscStr ''assistant''),
        (''/music/descriptor/tempo'', OscFloat 180),
        (''/music/descriptor/energy'', OscFloat 0.9),
        (''/music/descriptor/scale'', OscStr ''minor'')]"
proof -
  let ?r = "\<lparr>chord = Some demo_chord, emotion = None, descriptors = demo_descriptors,
             dialogue = Some demo_turn\<rparr>"
  have ok: "list_all (\<lambda>(a, v). send_message demo_world a v = None) (osc_messages ?r)"
    by (simp add: demo_world_def list_all_iff)
  have msgs: "osc_messages ?r =
       [(''/music/chord/label'', OscStr ''Dm''),
        (''/music/llm/content'', OscStr ''A storm is coming.''),
        (''/music/llm/role'', OscStr ''assistant''),
        (''/music/descriptor/tempo'', OscFloat 180),
        (''/music/descriptor/energy'', OscFloat 0.9),
        (''/music/descriptor/scale'', OscStr ''minor'')]"
    by (simp add: osc_messages_def demo_chord_def demo_turn_def demo_descriptors_def)
  from message_scheme[of demo_world ?r "init_game default_config"] ok
  have "fst (send_game_result demo_world ?r (init_game default_config)) = Inr ()"
    by simp
  with ok msgs show ?thesis by simp
qed

text \<open>
  Claim C3 (history bound). With history_limit 0 the slice \<^verbatim>\<open>history[-0:]\<close> is the
  whole list, so the trim removes nothing: after one successful generation on a fresh
  instance the history holds one turn, where the claim requires min(1, 0) = 0.
\<close>

theorem history_limit_zero_keeps_turn:
  "history (snd (process_audio_file demo_world ''a.wav''
      (init_game (default_config\<lparr>history_limit := 0\<rparr>)))) = [demo_turn]"
  by code_simp

text \<open>
  The trim in general: with a positive limit the history after any number of generations is
  the last \<open>limit\<close> turns, in order; with limit 0 nothing is ever dropped.
\<close>

lemma append_and_trim_zero: "append_and_trim 0 h t = h @ [t]"
  by (simp add: append_and_trim_def py_slice_from_def)

lemma append_and_trim_pos:
  "0 < L \<Longrightarrow> append_and_trim L h t = drop (Suc (length h) - nat L) (h @ [t])"
proof -
  assume "0 < L"
  then have "nat (max (int (length (h @ [t])) + - L) 0) = Suc (length h) - nat L"
    by (simp add: max_def) linarith
  with \<open>0 < L\<close> show ?thesis
    by (simp add: append_and_trim_def py_slice_from_def Let_def)
qed

lemma history_unbounded_at_zero: "foldl (append_and_trim 0) h ts = h @ ts"
  by (induction ts arbitrary: h) (simp_all add: append_and_trim_zero)

lemma history_last_turns:
  assumes "0 < L"
  shows "foldl (append_and_trim L) [] ts = drop (length ts - nat L) ts"
proof (induction ts rule: rev_induct)
  case Nil
  show ?case by simp
next
  case (snoc t ts)
  have "foldl (append_and_trim L) [] (ts @ [t]) =
      append_and_trim L (drop (length ts - nat L) ts) t"
    by (simp add: snoc)
  also have "\<dots> = drop (Suc (length (drop (length ts - nat L) ts)) - nat L)
                    (drop (length ts - nat L) ts @ [t])"
    by (rule append_and_trim_pos[OF assms])
  also have "\<dots> = drop (Suc (length ts) - nat L) (ts @ [t])"
  proof (cases "length ts \<le> nat L")
    case True
    then show ?thesis by simp
  next
    case False
    with assms have "Suc (length (drop (length ts - nat L) ts)) - nat L = 1"
      by simp
    moreover from False have "Suc (length ts) - nat L = Suc (length ts - nat L)"
      by linarith
    ultimately show ?thesis using False by (simp add: drop_Suc tl_drop tl_append split: list.splits)
  qed
  finally show ?case by simp
qed

lemma history_bound:
  assumes "0 < L"
  shows "length (foldl (append_and_trim L) [] ts) = min (length ts) (nat L)"
  by (simp add: history_last_turns[OF assms])

end
